theory Spec2Isabelle
  imports Complex_Main
begin

section \<open>Values and objects\<close>

text \<open>
  The values that \<^verbatim>\<open>JSON.parse\<close> produces. A property that is missing from an object
  reads as \<^verbatim>\<open>undefined\<close> in the source; here a property lookup returns an option and
  \<open>None\<close> is \<^verbatim>\<open>undefined\<close>. \<open>JNum\<close> is a finite number: the double that the parser
  produced, held as the rational it denotes. \<open>JInf\<close> is \<^verbatim>\<open>Infinity\<close> (with \<open>True\<close>) or
  \<^verbatim>\<open>-Infinity\<close>, which the parser gives for a literal beyond the range of a double, such
  as \<^verbatim>\<open>1e400\<close>. The parser gives no \<^verbatim>\<open>NaN\<close>.
\<close>

datatype jsval =
    JNull
  | JBool bool
  | JNum rat
  | JInf bool
  | JStr string
  | JArr "jsval list"
  | JObj "string \<Rightarrow> jsval option"

type_synonym obj = "string \<Rightarrow> jsval option"

text \<open>Truthiness of a value that may be \<^verbatim>\<open>undefined\<close>, as \<^verbatim>\<open>||\<close> and \<^verbatim>\<open>if\<close> test it.\<close>

fun truthy :: "jsval option \<Rightarrow> bool" where
  "truthy None = False"
| "truthy (Some JNull) = False"
| "truthy (Some (JBool b)) = b"
| "truthy (Some (JNum n)) = (n \<noteq> 0)"
| "truthy (Some (JInf b)) = True"
| "truthy (Some (JStr s)) = (s \<noteq> [])"
| "truthy (Some (JArr xs)) = True"
| "truthy (Some (JObj m)) = True"

text \<open>\<^verbatim>\<open>a || d\<close> with a default \<open>d\<close> that is a value.\<close>

definition or_default :: "jsval option \<Rightarrow> jsval \<Rightarrow> jsval option" where
  "or_default a d = (if truthy a then a else Some d)"

text \<open>
  An object literal whose property values may be \<^verbatim>\<open>undefined\<close>, as it is seen once
  serialised: a property whose value is \<^verbatim>\<open>undefined\<close> is left out.
\<close>

definition literal :: "(string \<times> jsval option) list \<Rightarrow> obj" where
  "literal kvs = (\<lambda>k. case map_of kvs k of Some (Some v) \<Rightarrow> Some v | _ \<Rightarrow> None)"

text \<open>
  A value as \<^verbatim>\<open>JSON.stringify\<close> writes it and the receiver reads it back: a non-finite
  number is written as \<^verbatim>\<open>null\<close>, inside arrays and objects too; every other value is
  written as it is.
\<close>

primrec to_json :: "jsval \<Rightarrow> jsval" where
  "to_json JNull = JNull"
| "to_json (JBool b) = JBool b"
| "to_json (JNum n) = JNum n"
| "to_json (JInf b) = JNull"
| "to_json (JStr s) = JStr s"
| "to_json (JArr xs) = JArr (map to_json xs)"
| "to_json (JObj m) = JObj (\<lambda>k. map_option to_json (m k))"

text \<open>The body that \<^verbatim>\<open>NextResponse.json\<close> sends for an object.\<close>

definition json_body :: "obj \<Rightarrow> obj" where
  "json_body m = (\<lambda>k. map_option to_json (m k))"

text \<open>
  A property of a body that the client tests for truthiness before use: it is missing,
  \<^verbatim>\<open>null\<close>, or holds a value of the declared type (an object or an array, both truthy).
\<close>

datatype 'x property = Absent | Null | Value 'x

section \<open>The live-state client (hooks/use-bot-stream.ts)\<close>

text \<open>
  \<^verbatim>\<open>BotState\<close> and \<^verbatim>\<open>Partial<BotState>\<close> are objects, keyed by field name. \<^verbatim>\<open>Trade\<close> and
  \<^verbatim>\<open>BotAction\<close> are never inspected by the hook and stay type parameters.
\<close>

definition RECONNECT_DELAY :: rat where
  "RECONNECT_DELAY = 3000"

definition MAX_RECONNECT_DELAY :: rat where
  "MAX_RECONNECT_DELAY = 30000"

text \<open>
  The state of one \<^verbatim>\<open>useBotStream\<close> instance: the five \<^verbatim>\<open>useState\<close> cells and the refs.
  \<open>reconnectTimeout\<close> is the timer held by \<^verbatim>\<open>reconnectTimeoutRef\<close>, with the delay it was
  scheduled with; \<open>None\<close> when no timer is pending. The socket held by \<^verbatim>\<open>wsRef\<close> belongs to
  the environment: its events are the inputs of the functions below.
\<close>

record ('t, 'a) client =
  isConnected :: bool
  state :: "obj option"
  trades :: "'t list"
  actions :: "'a list"
  error :: "string option"
  reconnectTimeout :: "rat option"
  reconnectDelay :: rat
  mounted :: bool

definition useBotStream :: "('t, 'a) client" where
  "useBotStream = \<lparr> isConnected = False, state = None, trades = [], actions = [],
     error = None, reconnectTimeout = None, reconnectDelay = RECONNECT_DELAY,
     mounted = True \<rparr>"

subsection \<open>Messages\<close>

text \<open>
  \<^verbatim>\<open>WebSocketMessage\<close>: the type tag decides the shape that \<^verbatim>\<open>data\<close> is cast to. \<open>Other\<close>
  carries any tag the \<^verbatim>\<open>switch\<close> has no case for. In \<open>Initial_state\<close> the two arrays
  are optional (\<^verbatim>\<open>data.recent_trades || []\<close>); \<^verbatim>\<open>data.state\<close> is a \<^verbatim>\<open>BotState\<close>, as the
  cast declares it, and a snapshot without one is outside the model.
\<close>

datatype ('t, 'a) message =
    Initial_state obj "'t list option" "'a list option"
  | Trade_msg 't
  | Action_msg 'a
  | State_update obj
  | Pong
  | Other string

fun msg_type :: "('t, 'a) message \<Rightarrow> string" where
  "msg_type (Initial_state s ts as) = ''initial_state''"
| "msg_type (Trade_msg t) = ''trade''"
| "msg_type (Action_msg a) = ''action''"
| "msg_type (State_update u) = ''state_update''"
| "msg_type Pong = ''pong''"
| "msg_type (Other tag) = tag"

definition recognized :: "string list" where
  "recognized = [''initial_state'', ''trade'', ''action'', ''state_update'', ''pong'']"

text \<open>\<^verbatim>\<open>event.data\<close>: text that \<^verbatim>\<open>JSON.parse\<close> rejects, or a parsed message.\<close>

datatype ('t, 'a) payload = Unparseable | Parsed "('t, 'a) message"

datatype exn = SyntaxError

text \<open>The body of the \<^verbatim>\<open>switch\<close>.\<close>

fun dispatch :: "('t, 'a) client \<Rightarrow> ('t, 'a) message \<Rightarrow> ('t, 'a) client" where
  "dispatch c (Initial_state s ts as) =
     c\<lparr> state := Some s,
        trades := (case ts of Some xs \<Rightarrow> xs | None \<Rightarrow> []),
        actions := (case as of Some xs \<Rightarrow> xs | None \<Rightarrow> []) \<rparr>"
| "dispatch c (Trade_msg trade) =
     c\<lparr> trades := drop (length (trades c) - 49) (trades c) @ [trade] \<rparr>"
| "dispatch c (Action_msg action) =
     c\<lparr> actions := action # take 49 (actions c) \<rparr>"
| "dispatch c (State_update update) =
     c\<lparr> state := (case state c of Some prev \<Rightarrow> Some (prev ++ update) | None \<Rightarrow> None) \<rparr>"
| "dispatch c Pong = c"
| "dispatch c (Other tag) = c"

text \<open>The \<^verbatim>\<open>try\<close> block of \<^verbatim>\<open>ws.onmessage\<close>: \<open>Inl\<close> is an exception thrown inside it.\<close>

definition try_message :: "('t, 'a) client \<Rightarrow> ('t, 'a) payload \<Rightarrow> exn + ('t, 'a) client" where
  "try_message c ev =
     (case ev of Unparseable \<Rightarrow> Inl SyntaxError | Parsed m \<Rightarrow> Inr (dispatch c m))"

text \<open>\<^verbatim>\<open>ws.onmessage\<close>: the liveness test, then the \<^verbatim>\<open>try\<close> block; the \<^verbatim>\<open>catch\<close> logs only.\<close>

definition onmessage :: "('t, 'a) client \<Rightarrow> ('t, 'a) payload \<Rightarrow> ('t, 'a) client" where
  "onmessage c ev =
     (if \<not> mounted c then c
      else case try_message c ev of Inl e \<Rightarrow> c | Inr c' \<Rightarrow> c')"

subsection \<open>Connection life cycle\<close>

definition onopen :: "('t, 'a) client \<Rightarrow> ('t, 'a) client" where
  "onopen c =
     (if \<not> mounted c then c
      else c\<lparr> isConnected := True, error := None, reconnectDelay := RECONNECT_DELAY \<rparr>)"

text \<open>\<^verbatim>\<open>ws.onclose\<close> schedules the reconnect timer with the current delay.\<close>

definition onclose :: "('t, 'a) client \<Rightarrow> ('t, 'a) client" where
  "onclose c =
     (if \<not> mounted c then c
      else c\<lparr> isConnected := False, reconnectTimeout := Some (reconnectDelay c) \<rparr>)"

definition onerror :: "('t, 'a) client \<Rightarrow> ('t, 'a) client" where
  "onerror c = c\<lparr> error := Some ''Failed to connect to bot'' \<rparr>"

text \<open>
  \<^verbatim>\<open>connect\<close>. The flag says whether \<^verbatim>\<open>new WebSocket(WS_URL)\<close> throws; when it does not,
  the handlers above are installed on the new socket and nothing else changes here.
  When it does, the \<^verbatim>\<open>catch\<close> records the error and starts a fallback fetch, whose
  completion is a later \<open>fetchInitialState\<close> step.
\<close>

definition connect :: "bool \<Rightarrow> ('t, 'a) client \<Rightarrow> ('t, 'a) client" where
  "connect throws c =
     (if \<not> mounted c then c
      else if throws then c\<lparr> error := Some ''Failed to connect to bot'' \<rparr>
      else c)"

text \<open>The callback given to \<^verbatim>\<open>setTimeout\<close> in \<^verbatim>\<open>ws.onclose\<close>, run when the timer fires.\<close>

definition reconnect_timer :: "bool \<Rightarrow> ('t, 'a) client \<Rightarrow> ('t, 'a) client" where
  "reconnect_timer throws c =
     (let c0 = c\<lparr> reconnectTimeout := None \<rparr>
      in if mounted c0
         then connect throws
                (c0\<lparr> reconnectDelay := min (reconnectDelay c0 * 1.5) MAX_RECONNECT_DELAY \<rparr>)
         else c0)"

text \<open>
  One failed cycle: the socket closes, which schedules the timer; the timer fires and
  \<^verbatim>\<open>connect\<close> opens the next socket.
\<close>

definition failed_cycle :: "('t, 'a) client \<Rightarrow> ('t, 'a) client" where
  "failed_cycle c = reconnect_timer False (onclose c)"


subsection \<open>The fallback fetch\<close>

text \<open>
  A resolved \<^verbatim>\<open>fetch\<close>: the \<^verbatim>\<open>ok\<close> flag and what \<^verbatim>\<open>json()\<close> gives (\<open>None\<close> when it throws).
  A \<^verbatim>\<open>fetch\<close> that rejects is \<open>None\<close> of the option around it. Of the bot body the hook
  reads the property \<^verbatim>\<open>state\<close>, of the actions body the property \<^verbatim>\<open>actions\<close>.
\<close>

datatype 'b response = Response (ok: bool) (json: "'b option")

definition apply_bot :: "('t, 'a) client \<Rightarrow> obj property response \<Rightarrow> ('t, 'a) client option" where
  "apply_bot c botRes =
     (if ok botRes
      then (case json botRes of
              None \<Rightarrow> None
            | Some botData \<Rightarrow>
                (case botData of Value s \<Rightarrow> Some (c\<lparr> state := Some s \<rparr>) | _ \<Rightarrow> Some c))
      else Some c)"

definition apply_actions ::
  "('t, 'a) client \<Rightarrow> 'a list property response \<Rightarrow> ('t, 'a) client option" where
  "apply_actions c actionsRes =
     (if ok actionsRes
      then (case json actionsRes of
              None \<Rightarrow> None
            | Some actionsData \<Rightarrow>
                (case actionsData of Value xs \<Rightarrow> Some (c\<lparr> actions := xs \<rparr>) | _ \<Rightarrow> Some c))
      else Some c)"

text \<open>
  \<^verbatim>\<open>fetchInitialState\<close>, from the point where both fetches have settled. \<^verbatim>\<open>Promise.all\<close>
  rejects as soon as one fetch rejects; every exception ends in the \<^verbatim>\<open>catch\<close>, which
  logs and keeps what was set before. The function reads nothing of the client: the
  cells of the result are what its calls of \<^verbatim>\<open>setState\<close> and \<^verbatim>\<open>setActions\<close> ask React for.
\<close>

definition fetchInitialState ::
  "('t, 'a) client \<Rightarrow> obj property response option \<Rightarrow> 'a list property response option
     \<Rightarrow> ('t, 'a) client" where
  "fetchInitialState c botFetch actionsFetch =
     (case (botFetch, actionsFetch) of
        (Some botRes, Some actionsRes) \<Rightarrow>
          (case apply_bot c botRes of
             None \<Rightarrow> c
           | Some c1 \<Rightarrow>
               (case apply_actions c1 actionsRes of None \<Rightarrow> c1 | Some c2 \<Rightarrow> c2))
      | _ \<Rightarrow> c)"


text \<open>\<^verbatim>\<open>state?.k\<close>, as the page reads a field of the state.\<close>

definition field_of :: "obj option \<Rightarrow> string \<Rightarrow> jsval option" where
  "field_of st k = (case st of None \<Rightarrow> None | Some s \<Rightarrow> s k)"

section \<open>The bot-state endpoint (GET /api/bot)\<close>

text \<open>
  What the handler finds at \<^verbatim>\<open>STATE_FILE\<close>: no file, a file that \<^verbatim>\<open>readFile\<close> fails on, text
  that \<^verbatim>\<open>JSON.parse\<close> rejects, or the parsed value. The two failures carry
  \<^verbatim>\<open>String(error)\<close>.
\<close>

datatype state_file = Missing | Unreadable string | Malformed string | Contents jsval

record http_response =
  status :: nat
  body :: obj

text \<open>
  Reading a property of the parsed value: an object gives the property or \<^verbatim>\<open>undefined\<close>;
  a number, string, boolean or array has none of the properties read here.
  \<^verbatim>\<open>null\<close> is handled before, since reading a property of it throws.
\<close>

fun props :: "jsval \<Rightarrow> obj" where
  "props (JObj m) = m"
| "props v = Map.empty"

definition null_read_error :: string where
  "null_read_error =
     ''TypeError: Cannot read properties of null (reading '' @ [CHR 0x27] @
     ''token_address'' @ [CHR 0x27] @ '')''"

text \<open>The \<^verbatim>\<open>catch\<close> branch.\<close>

definition server_error :: "string \<Rightarrow> http_response" where
  "server_error e =
     \<lparr> status = 500,
       body = json_body (literal
         [(''connected'', Some (JBool False)),
          (''message'', Some (JStr ''Error reading bot state'')),
          (''error'', Some (JStr e))]) \<rparr>"

text \<open>
  The object literal under \<^verbatim>\<open>state:\<close> in the successful response, before it is
  serialised.
\<close>

definition to_client :: "jsval \<Rightarrow> obj" where
  "to_client v =
     (let st = props v in
      literal
        [(''tokenAddress'', st ''token_address''),
         (''totalBuys'', or_default (st ''total_buys'') (JNum 0)),
         (''totalSells'', or_default (st ''total_sells'') (JNum 0)),
         (''totalBuyVolume'', or_default (st ''total_buy_volume'') (JNum 0)),
         (''totalSellVolume'', or_default (st ''total_sell_volume'') (JNum 0)),
         (''lastPrice'', st ''last_price''),
         (''highestPrice'', st ''highest_price''),
         (''lowestPrice'', st ''lowest_price''),
         (''lastMarketCap'', st ''last_market_cap''),
         (''lastHolderCount'', st ''last_holder_count''),
         (''lastCreatorRewardsAvailable'',
            or_default (st ''last_creator_rewards_available'') (JNum 0)),
         (''creatorRewards'', or_default (st ''creator_rewards'') (JNum 0)),
         (''totalAnalyses'', or_default (st ''total_analyses'') (JNum 0)),
         (''totalAlerts'', or_default (st ''total_alerts'') (JNum 0)),
         (''startTime'', st ''start_time''),
         (''analysisMode'', or_default (st ''analysis_mode'') (JStr ''brief''))])"

definition GET :: "state_file \<Rightarrow> http_response" where
  "GET f =
     (case f of
        Missing \<Rightarrow>
          \<lparr> status = 200,
            body = json_body (literal
              [(''connected'', Some (JBool False)),
               (''message'', Some (JStr ''Bot state file not found. Is the bot running?'')),
               (''state'', Some JNull)]) \<rparr>
      | Unreadable e \<Rightarrow> server_error e
      | Malformed e \<Rightarrow> server_error e
      | Contents JNull \<Rightarrow> server_error null_read_error
      | Contents v \<Rightarrow>
          \<lparr> status = 200,
            body = json_body (literal
              [(''connected'', Some (JBool True)),
               (''state'', Some (JObj (to_client v)))]) \<rparr>)"

text \<open>\<^verbatim>\<open>body.state?.k\<close> of a response.\<close>

definition state_prop :: "http_response \<Rightarrow> string \<Rightarrow> jsval option" where
  "state_prop r k = (case body r ''state'' of Some (JObj s) \<Rightarrow> s k | _ \<Rightarrow> None)"

text \<open>
  The fields of the state file and their names in the response: those read with
  \<^verbatim>\<open>|| 0\<close>, and those copied as they are. \<^verbatim>\<open>analysis_mode\<close>, read with
  \<^verbatim>\<open>|| 'brief'\<close>, is in neither list.
\<close>

definition defaulted :: "(string \<times> string) list" where
  "defaulted =
     [(''total_buys'', ''totalBuys''), (''total_sells'', ''totalSells''),
      (''total_buy_volume'', ''totalBuyVolume''), (''total_sell_volume'', ''totalSellVolume''),
      (''last_creator_rewards_available'', ''lastCreatorRewardsAvailable''),
      (''creator_rewards'', ''creatorRewards''), (''total_analyses'', ''totalAnalyses''),
      (''total_alerts'', ''totalAlerts'')]"

definition copied :: "(string \<times> string) list" where
  "copied =
     [(''token_address'', ''tokenAddress''), (''last_price'', ''lastPrice''),
      (''highest_price'', ''highestPrice''), (''lowest_price'', ''lowestPrice''),
      (''last_market_cap'', ''lastMarketCap''), (''last_holder_count'', ''lastHolderCount''),
      (''start_time'', ''startTime'')]"

section \<open>Bounded lists\<close>

lemma drop_window:
  "drop (length (drop (length zs - 50) zs) - 49) (drop (length zs - 50) zs) @ [t]
     = drop (length (zs @ [t]) - 50) (zs @ [t])"
proof -
  have "length zs - (length zs - 50) - 49 + (length zs - 50) = length zs - 49"
    by arith
  then show ?thesis by simp
qed

lemma trade_window:
  "length xs \<le> 50 \<Longrightarrow>
   foldl (\<lambda>ys t. drop (length ys - 49) ys @ [t]) xs ts
     = drop (length (xs @ ts) - 50) (xs @ ts)"
proof (induction ts rule: rev_induct)
  case Nil
  then show ?case by simp
next
  case (snoc t ts)
  define zs where "zs = xs @ ts"
  from snoc have "foldl (\<lambda>ys t. drop (length ys - 49) ys @ [t]) xs ts
                    = drop (length zs - 50) zs"
    by (simp add: zs_def)
  then have "foldl (\<lambda>ys t. drop (length ys - 49) ys @ [t]) xs (ts @ [t])
          = drop (length (zs @ [t]) - 50) (zs @ [t])"
    using drop_window [of zs t] by simp
  then show ?case by (simp add: zs_def)
qed

lemma take_window: "a # take 49 (take 50 ws) = take 50 (a # ws)"
  by simp

lemma action_window:
  "length xs \<le> 50 \<Longrightarrow>
   foldl (\<lambda>ys a. a # take 49 ys) xs as = take 50 (rev as @ xs)"
proof (induction as rule: rev_induct)
  case Nil
  then show ?case by simp
next
  case (snoc a as)
  define ws where "ws = rev as @ xs"
  from snoc have "foldl (\<lambda>ys a. a # take 49 ys) xs as = take 50 ws"
    by (simp add: ws_def)
  then have "foldl (\<lambda>ys a. a # take 49 ys) xs (as @ [a]) = take 50 (a # ws)"
    using take_window [of a ws] by simp
  then show ?case by (simp add: ws_def)
qed

lemma mounted_dispatch: "mounted (dispatch c m) = mounted c"
  by (cases m) simp_all

lemma onmessage_mounted: "mounted c \<Longrightarrow> onmessage c (Parsed m) = dispatch c m"
  by (simp add: onmessage_def try_message_def)

lemma trades_fold:
  "mounted c \<Longrightarrow>
   trades (foldl (\<lambda>c t. onmessage c (Parsed (Trade_msg t))) c ts)
     = foldl (\<lambda>ys t. drop (length ys - 49) ys @ [t]) (trades c) ts"
proof (induction ts arbitrary: c)
  case Nil
  then show ?case by simp
next
  case (Cons t ts)
  have "mounted (onmessage c (Parsed (Trade_msg t)))"
    using Cons.prems by (simp add: onmessage_mounted)
  from Cons.IH [OF this] show ?case
    using Cons.prems by (simp add: onmessage_mounted)
qed

lemma actions_fold:
  "mounted c \<Longrightarrow>
   actions (foldl (\<lambda>c a. onmessage c (Parsed (Action_msg a))) c as)
     = foldl (\<lambda>ys a. a # take 49 ys) (actions c) as"
proof (induction as arbitrary: c)
  case Nil
  then show ?case by simp
next
  case (Cons a as)
  have "mounted (onmessage c (Parsed (Action_msg a)))"
    using Cons.prems by (simp add: onmessage_mounted)
  from Cons.IH [OF this] show ?case
    using Cons.prems by (simp add: onmessage_mounted)
qed

text \<open>
  C3. On a started client whose trades list holds at most 50 entries, after any sequence
  of \<^verbatim>\<open>trade\<close> messages the list is the last 50 entries of the old list followed by the
  received trades, in arrival order with the newest last; it never holds more than 50.
\<close>

theorem trades_hold_last_50:
  assumes "mounted c" and "length (trades c) \<le> 50"
  shows "trades (foldl (\<lambda>c t. onmessage c (Parsed (Trade_msg t))) c ts)
           = drop (length (trades c @ ts) - 50) (trades c @ ts)
         \<and> length (trades (foldl (\<lambda>c t. onmessage c (Parsed (Trade_msg t))) c ts)) \<le> 50"
proof -
  have eq: "trades (foldl (\<lambda>c t. onmessage c (Parsed (Trade_msg t))) c ts)
              = drop (length (trades c @ ts) - 50) (trades c @ ts)"
    using assms by (simp only: trades_fold trade_window)
  have "length (drop (length (trades c @ ts) - 50) (trades c @ ts)) \<le> 50"
    by (simp del: length_append drop_append)
  with eq show ?thesis by simp
qed

theorem trades_hold_last_50_witness:
  "mounted (useBotStream\<lparr> trades :=
         [107, 114, 121, 128, 135, 142, 149, 156, 163, 170, 177, 184, 191, 198, 205,
          212, 219, 226, 233, 240, 247, 254, 261, 268, 275, 282, 289, 296, 303, 310,
          317, 324, 331, 338, 345, 352, 359, 366, 373, 380, 387, 394, 401, 408, 415,
          422, 429, 436, 443, 450 :: nat] \<rparr> :: (nat, nat) client)
   \<and> length (trades (useBotStream\<lparr> trades :=
         [107, 114, 121, 128, 135, 142, 149, 156, 163, 170, 177, 184, 191, 198, 205,
          212, 219, 226, 233, 240, 247, 254, 261, 268, 275, 282, 289, 296, 303, 310,
          317, 324, 331, 338, 345, 352, 359, 366, 373, 380, 387, 394, 401, 408, 415,
          422, 429, 436, 443, 450 :: nat] \<rparr> :: (nat, nat) client)) \<le> 50
   \<and> trades (foldl (\<lambda>c t. onmessage c (Parsed (Trade_msg t)))
        (useBotStream\<lparr> trades :=
         [107, 114, 121, 128, 135, 142, 149, 156, 163, 170, 177, 184, 191, 198, 205,
          212, 219, 226, 233, 240, 247, 254, 261, 268, 275, 282, 289, 296, 303, 310,
          317, 324, 331, 338, 345, 352, 359, 366, 373, 380, 387, 394, 401, 408, 415,
          422, 429, 436, 443, 450 :: nat] \<rparr> :: (nat, nat) client) [457, 464])
       = [121, 128, 135, 142, 149, 156, 163, 170, 177, 184, 191, 198, 205, 212, 219,
          226, 233, 240, 247, 254, 261, 268, 275, 282, 289, 296, 303, 310, 317, 324,
          331, 338, 345, 352, 359, 366, 373, 380, 387, 394, 401, 408, 415, 422, 429,
          436, 443, 450, 457, 464]"
  using trades_hold_last_50
    [of "useBotStream\<lparr> trades :=
         [107, 114, 121, 128, 135, 142, 149, 156, 163, 170, 177, 184, 191, 198, 205,
          212, 219, 226, 233, 240, 247, 254, 261, 268, 275, 282, 289, 296, 303, 310,
          317, 324, 331, 338, 345, 352, 359, 366, 373, 380, 387, 394, 401, 408, 415,
          422, 429, 436, 443, 450 :: nat] \<rparr> :: (nat, nat) client"
        "[457, 464]"]
  by (simp add: useBotStream_def)

text \<open>
  C4. On a started client whose actions list holds at most 50 entries, after any sequence
  of \<^verbatim>\<open>action\<close> messages the list is the first 50 entries of the received actions,
  newest first, followed by the old list; it never holds more than 50.
\<close>

theorem actions_hold_last_50:
  assumes "mounted c" and "length (actions c) \<le> 50"
  shows "actions (foldl (\<lambda>c a. onmessage c (Parsed (Action_msg a))) c as)
           = take 50 (rev as @ actions c)
         \<and> length (actions (foldl (\<lambda>c a. onmessage c (Parsed (Action_msg a))) c as)) \<le> 50"
proof -
  have eq: "actions (foldl (\<lambda>c a. onmessage c (Parsed (Action_msg a))) c as)
              = take 50 (rev as @ actions c)"
    using assms by (simp only: actions_fold action_window)
  have "length (take 50 (rev as @ actions c)) \<le> 50"
    by (simp del: length_append take_append)
  with eq show ?thesis by simp
qed

theorem actions_hold_last_50_witness:
  "mounted (useBotStream\<lparr> actions :=
         [450, 443, 436, 429, 422, 415, 408, 401, 394, 387, 380, 373, 366, 359, 352,
          345, 338, 331, 324, 317, 310, 303, 296, 289, 282, 275, 268, 261, 254, 247,
          240, 233, 226, 219, 212, 205, 198, 191, 184, 177, 170, 163, 156, 149, 142,
          135, 128, 121, 114, 107 :: nat] \<rparr> :: (nat, nat) client)
   \<and> length (actions (useBotStream\<lparr> actions :=
         [450, 443, 436, 429, 422, 415, 408, 401, 394, 387, 380, 373, 366, 359, 352,
          345, 338, 331, 324, 317, 310, 303, 296, 289, 282, 275, 268, 261, 254, 247,
          240, 233, 226, 219, 212, 205, 198, 191, 184, 177, 170, 163, 156, 149, 142,
          135, 128, 121, 114, 107 :: nat] \<rparr> :: (nat, nat) client)) \<le> 50
   \<and> actions (foldl (\<lambda>c a. onmessage c (Parsed (Action_msg a)))
        (useBotStream\<lparr> actions :=
         [450, 443, 436, 429, 422, 415, 408, 401, 394, 387, 380, 373, 366, 359, 352,
          345, 338, 331, 324, 317, 310, 303, 296, 289, 282, 275, 268, 261, 254, 247,
          240, 233, 226, 219, 212, 205, 198, 191, 184, 177, 170, 163, 156, 149, 142,
          135, 128, 121, 114, 107 :: nat] \<rparr> :: (nat, nat) client) [457, 464])
       = [464, 457, 450, 443, 436, 429, 422, 415, 408, 401, 394, 387, 380, 373, 366,
          359, 352, 345, 338, 331, 324, 317, 310, 303, 296, 289, 282, 275, 268, 261,
          254, 247, 240, 233, 226, 219, 212, 205, 198, 191, 184, 177, 170, 163, 156,
          149, 142, 135, 128, 121]"
  using actions_hold_last_50
    [of "useBotStream\<lparr> actions :=
         [450, 443, 436, 429, 422, 415, 408, 401, 394, 387, 380, 373, 366, 359, 352,
          345, 338, 331, 324, 317, 310, 303, 296, 289, 282, 275, 268, 261, 254, 247,
          240, 233, 226, 219, 212, 205, 198, 191, 184, 177, 170, 163, 156, 149, 142,
          135, 128, 121, 114, 107 :: nat] \<rparr> :: (nat, nat) client"
        "[457, 464]"]
  by (simp add: useBotStream_def)

section \<open>Reconnection\<close>

lemma backoff_step:
  "0 \<le> a \<Longrightarrow> min (min a 30000 * 1.5) 30000 = min (a * 1.5) (30000 :: rat)"
  by (auto simp: min_def)

lemma failed_cycle_delay:
  "mounted c \<Longrightarrow>
   mounted (failed_cycle c) \<and>
   reconnectDelay (failed_cycle c) = min (reconnectDelay c * 1.5) MAX_RECONNECT_DELAY"
  by (simp add: failed_cycle_def reconnect_timer_def onclose_def connect_def Let_def)

lemma failed_cycles:
  "mounted c \<Longrightarrow> reconnectDelay c = RECONNECT_DELAY \<Longrightarrow>
   mounted ((failed_cycle ^^ n) c) \<and>
   reconnectDelay ((failed_cycle ^^ n) c)
     = min (3000 * 1.5 ^ n) 30000"
proof (induction n)
  case 0
  then show ?case by (simp add: RECONNECT_DELAY_def)
next
  case (Suc n)
  let ?c = "(failed_cycle ^^ n) c"
  from Suc have m: "mounted ?c" and d: "reconnectDelay ?c = min (3000 * 1.5 ^ n) 30000"
    by simp_all
  have "(0::rat) \<le> 3000 * 1.5 ^ n" by simp
  from backoff_step [OF this] failed_cycle_delay [OF m] d
  show ?case by (simp add: MAX_RECONNECT_DELAY_def mult.assoc)
qed

text \<open>
  C2. From a started client whose delay is the base value (as at start and after every
  \<^verbatim>\<open>onopen\<close>), the close that ends the N-th consecutive failed cycle, for N at least 1,
  schedules the reconnect timer with min(3000 * 1.5^(N-1), 30000) milliseconds. After
  any number of failed cycles, \<^verbatim>\<open>onopen\<close> sets the delay back to 3000, and the next close
  schedules the timer with 3000. The delays that occur are dyadic rationals below 2^53,
  so the source's doubles hold them exactly.
\<close>

theorem reconnect_backoff:
  assumes "mounted c" and "reconnectDelay c = RECONNECT_DELAY" and "1 \<le> N"
  shows "reconnectTimeout (onclose ((failed_cycle ^^ (N - 1)) c))
           = Some (min (3000 * 1.5 ^ (N - 1)) 30000)
         \<and> reconnectDelay (onopen ((failed_cycle ^^ N) c)) = 3000
         \<and> reconnectTimeout (onclose (onopen ((failed_cycle ^^ N) c)))
             = Some 3000"
proof -
  from failed_cycles [OF assms(1,2), of "N - 1"]
  have first: "reconnectTimeout (onclose ((failed_cycle ^^ (N - 1)) c))
           = Some (min (3000 * 1.5 ^ (N - 1)) 30000)"
    by (simp add: onclose_def)
  from failed_cycles [OF assms(1,2), of N]
  have "mounted ((failed_cycle ^^ N) c)" by simp
  then have
    "reconnectDelay (onopen ((failed_cycle ^^ N) c)) = 3000"
    "reconnectTimeout (onclose (onopen ((failed_cycle ^^ N) c)))
       = Some 3000"
    by (simp_all add: onopen_def onclose_def RECONNECT_DELAY_def)
  with first show ?thesis by simp
qed

theorem reconnect_backoff_witness:
  "mounted (useBotStream :: (nat, nat) client)
   \<and> reconnectDelay (useBotStream :: (nat, nat) client) = RECONNECT_DELAY
   \<and> 1 \<le> (3 :: nat)
   \<and> reconnectTimeout (onclose ((failed_cycle ^^ (3 - 1))
        (useBotStream :: (nat, nat) client))) = Some 6750
   \<and> reconnectTimeout (onclose ((failed_cycle ^^ (8 - 1))
        (useBotStream :: (nat, nat) client))) = Some 30000"
proof -
  have m: "mounted (useBotStream :: (nat, nat) client)"
    and d: "reconnectDelay (useBotStream :: (nat, nat) client) = RECONNECT_DELAY"
    by (simp_all add: useBotStream_def)
  have "min ((3000::rat) * 1.5 ^ (3 - 1)) 30000 = 6750"
       "min ((3000::rat) * 1.5 ^ (8 - 1)) 30000 = 30000"
    by (simp_all add: power_numeral_reduce)
  with reconnect_backoff [OF m d, of 3] reconnect_backoff [OF m d, of 8] m d
  show ?thesis by simp
qed

section \<open>Messages\<close>

text \<open>
  C7. A message whose type tag is none of the five tags of the \<^verbatim>\<open>switch\<close>, and a payload
  that \<^verbatim>\<open>JSON.parse\<close> rejects, leave the whole client, so \<open>state\<close>, \<open>trades\<close> and
  \<open>actions\<close>, as it was. The handler returns in both cases: the \<^verbatim>\<open>SyntaxError\<close> raised in
  the \<^verbatim>\<open>try\<close> block ends in the \<^verbatim>\<open>catch\<close>.
\<close>

theorem unrecognized_or_unparseable_ignored:
  "(msg_type m \<notin> set recognized \<longrightarrow> onmessage c (Parsed m) = c)
   \<and> onmessage c Unparseable = c"
  by (cases m) (simp_all add: recognized_def onmessage_def try_message_def)

theorem unrecognized_or_unparseable_ignored_witness:
  "msg_type (Other ''ping'' :: (nat, nat) message) \<notin> set recognized
   \<and> onmessage (useBotStream :: (nat, nat) client) (Parsed (Other ''ping'')) = useBotStream
   \<and> onmessage (useBotStream :: (nat, nat) client) Unparseable = useBotStream"
  using unrecognized_or_unparseable_ignored
          [of "Other ''ping'' :: (nat, nat) message" "useBotStream :: (nat, nat) client"]
  by (simp add: recognized_def)

text \<open>
  C8. On a started client, a \<^verbatim>\<open>state_update\<close> message with a prior state leaves a state in
  which every field of the update has the update's value and every other field has its
  previous value; with no prior state the message changes nothing and the state stays
  absent.
\<close>

theorem state_update_merges:
  assumes "mounted c"
  shows "(state c = Some prev \<longrightarrow>
            state (onmessage c (Parsed (State_update update))) \<noteq> None
            \<and> field_of (state (onmessage c (Parsed (State_update update)))) k
                = (case update k of Some v \<Rightarrow> Some v | None \<Rightarrow> prev k))
         \<and> (state c = None \<longrightarrow> onmessage c (Parsed (State_update update)) = c)"
  using assms
  by (simp add: onmessage_def try_message_def field_of_def map_add_def split: option.split)

theorem state_update_merges_witness:
  "mounted (useBotStream\<lparr> state := Some [''totalBuys'' \<mapsto> JNum 5, ''totalSells'' \<mapsto> JNum 1] \<rparr>
      :: (nat, nat) client)
   \<and> field_of (state (onmessage
        (useBotStream\<lparr> state := Some [''totalBuys'' \<mapsto> JNum 5, ''totalSells'' \<mapsto> JNum 1] \<rparr>
           :: (nat, nat) client)
        (Parsed (State_update [''totalBuys'' \<mapsto> JNum 6])))) ''totalBuys'' = Some (JNum 6)
   \<and> field_of (state (onmessage
        (useBotStream\<lparr> state := Some [''totalBuys'' \<mapsto> JNum 5, ''totalSells'' \<mapsto> JNum 1] \<rparr>
           :: (nat, nat) client)
        (Parsed (State_update [''totalBuys'' \<mapsto> JNum 6])))) ''totalSells'' = Some (JNum 1)
   \<and> mounted (useBotStream :: (nat, nat) client)
   \<and> state (useBotStream :: (nat, nat) client) = None
   \<and> onmessage (useBotStream :: (nat, nat) client)
        (Parsed (State_update [''totalBuys'' \<mapsto> JNum 6])) = useBotStream"
proof -
  let ?c = "useBotStream\<lparr> state := Some [''totalBuys'' \<mapsto> JNum 5, ''totalSells'' \<mapsto> JNum 1] \<rparr>
              :: (nat, nat) client"
  let ?prev = "[''totalBuys'' \<mapsto> JNum 5, ''totalSells'' \<mapsto> JNum 1]"
  let ?u = "[''totalBuys'' \<mapsto> JNum 6]"
  have m: "mounted ?c" and m0: "mounted (useBotStream :: (nat, nat) client)"
    and s0: "state (useBotStream :: (nat, nat) client) = None"
    by (simp_all add: useBotStream_def)
  have s: "state ?c = Some ?prev" by simp
  from state_update_merges [OF m, of ?prev ?u "''totalBuys''"]
       state_update_merges [OF m, of ?prev ?u "''totalSells''"]
       state_update_merges [OF m0, of ?prev ?u "''totalBuys''"] m m0 s0 s
  show ?thesis by simp
qed

section \<open>The fallback fetch\<close>

lemma state_apply_actions: "apply_actions c r = Some c' \<Longrightarrow> state c' = state c"
  by (auto simp: apply_actions_def split: if_splits option.splits property.splits)

lemma state_after_fetch:
  "apply_bot c botRes = Some c1 \<Longrightarrow>
   state (fetchInitialState c (Some botRes) (Some actionsRes)) = state c1"
  by (auto simp: fetchInitialState_def split: option.splits dest: state_apply_actions)



text \<open>
  C1, as the code has it. On a started client, whatever populated its view, also an
  \<^verbatim>\<open>initial_state\<close> message: when both fetches have resolved and the bot response is ok
  and carries a state, that state replaces the whole state of the view, so the last
  write wins. When the actions fetch rejects, \<^verbatim>\<open>Promise.all\<close> rejects before the state is
  set, and the state is kept.
\<close>

theorem fallback_state_last_write_wins:
  assumes "mounted c"
  shows "state (fetchInitialState c (Some (Response True (Some (Value s))))
                  (Some actionsRes)) = Some s
         \<and> state (fetchInitialState c botFetch None) = state c"
proof -
  have "apply_bot c (Response True (Some (Value s))) = Some (c\<lparr> state := Some s \<rparr>)"
    by (simp add: apply_bot_def)
  from state_after_fetch [OF this]
  have "state (fetchInitialState c (Some (Response True (Some (Value s))))
                 (Some actionsRes)) = Some s"
    by simp
  moreover have "state (fetchInitialState c botFetch None) = state c"
    by (cases botFetch) (simp_all add: fetchInitialState_def)
  ultimately show ?thesis by simp
qed

theorem fallback_state_last_write_wins_witness:
  "mounted (onmessage (useBotStream :: (nat, nat) client)
       (Parsed (Initial_state [''totalBuys'' \<mapsto> JNum 5] None None)))
   \<and> field_of (state (fetchInitialState
         (onmessage (useBotStream :: (nat, nat) client)
            (Parsed (Initial_state [''totalBuys'' \<mapsto> JNum 5] None None)))
         (Some (Response True (Some (Value [''totalBuys'' \<mapsto> JNum 3]))))
         (Some (Response False None)))) ''totalBuys'' = Some (JNum 3)
   \<and> field_of (state (fetchInitialState
         (onmessage (useBotStream :: (nat, nat) client)
            (Parsed (Initial_state [''totalBuys'' \<mapsto> JNum 5] None None)))
         (Some (Response True (Some (Value [''totalBuys'' \<mapsto> JNum 3]))))
         None)) ''totalBuys'' = Some (JNum 5)"
proof -
  let ?c = "onmessage (useBotStream :: (nat, nat) client)
              (Parsed (Initial_state [''totalBuys'' \<mapsto> JNum 5] None None))"
  have m: "mounted ?c"
    by (simp add: onmessage_def try_message_def useBotStream_def)
  have s: "field_of (state ?c) ''totalBuys'' = Some (JNum 5)"
    by (simp add: onmessage_def try_message_def useBotStream_def field_of_def)
  from fallback_state_last_write_wins
         [OF m, of "[''totalBuys'' \<mapsto> JNum 3]" "Response False None"
            "Some (Response True (Some (Value [''totalBuys'' \<mapsto> JNum 3])))"] m s
  show ?thesis by (simp add: field_of_def)
qed

text \<open>
  The scenario of the claim as first stated: the stream delivers \<^verbatim>\<open>totalBuys = 5\<close>, then
  the fallback response resolves with \<^verbatim>\<open>totalBuys = 3\<close>. The view ends with 3, not 5.
\<close>

theorem fallback_state_counterexample:
  "field_of (state (fetchInitialState
       (onmessage (useBotStream :: (nat, nat) client)
          (Parsed (Initial_state [''totalBuys'' \<mapsto> JNum 5] None None)))
       (Some (Response True (Some (Value [''totalBuys'' \<mapsto> JNum 3]))))
       (Some (Response True (Some (Value [])))))) ''totalBuys'' \<noteq> Some (JNum 5)
   \<and> field_of (state (fetchInitialState
       (onmessage (useBotStream :: (nat, nat) client)
          (Parsed (Initial_state [''totalBuys'' \<mapsto> JNum 5] None None)))
       (Some (Response True (Some (Value [''totalBuys'' \<mapsto> JNum 3]))))
       (Some (Response True (Some (Value [])))))) ''totalBuys'' = Some (JNum 3)"
  by (simp add: fetchInitialState_def apply_bot_def apply_actions_def field_of_def)

text \<open>
  C5, as the code has it. Once both fetches have resolved, the two responses are handled
  one after the other: when one has a non-ok status and the other is ok, the data of
  the other is merged. When either fetch rejects, \<^verbatim>\<open>Promise.all\<close> rejects and nothing is
  merged.
\<close>

theorem fallback_independent_once_resolved:
  "actions (fetchInitialState c (Some (Response False j))
              (Some (Response True (Some (Value xs))))) = xs
   \<and> state (fetchInitialState c (Some (Response True (Some (Value s))))
              (Some (Response False j'))) = Some s
   \<and> fetchInitialState c None actionsFetch = c
   \<and> fetchInitialState c botFetch None = c"
  by (cases botFetch) (simp_all add: fetchInitialState_def apply_bot_def apply_actions_def)

text \<open>
  The bot fetch rejects and the actions fetch succeeds with one action: the action is
  not merged.
\<close>

theorem fallback_rejection_counterexample:
  "actions (fetchInitialState (useBotStream :: (nat, nat) client)
      None (Some (Response True (Some (Value [1]))))) \<noteq> [1]"
  by (simp add: fetchInitialState_def useBotStream_def)



text \<open>
  C10. A bot response whose \<^verbatim>\<open>state\<close> property is \<^verbatim>\<open>null\<close> or missing leaves the state
  of the view as it was, whatever the status of the response and whatever the actions
  fetch does.
\<close>

theorem fallback_without_state_keeps_state:
  assumes "botData = Null \<or> botData = Absent"
  shows "state (fetchInitialState c (Some (Response status_ok (Some botData))) actionsFetch)
           = state c"
proof (cases actionsFetch)
  case None
  then show ?thesis by (simp add: fetchInitialState_def)
next
  case (Some actionsRes)
  from assms have "apply_bot c (Response status_ok (Some botData)) = Some c"
    by (auto simp: apply_bot_def)
  from state_after_fetch [OF this] Some show ?thesis by simp
qed

theorem fallback_without_state_keeps_state_witness:
  "((Null :: obj property) = Null \<or> (Null :: obj property) = Absent)
   \<and> field_of (state (fetchInitialState
       (onmessage (useBotStream :: (nat, nat) client)
          (Parsed (Initial_state [''totalBuys'' \<mapsto> JNum 5] None None)))
       (Some (Response True (Some Null)))
       (Some (Response True (Some (Value [])))))) ''totalBuys'' = Some (JNum 5)"
  using fallback_without_state_keeps_state
    [of Null "onmessage (useBotStream :: (nat, nat) client)
                (Parsed (Initial_state [''totalBuys'' \<mapsto> JNum 5] None None))"
        True "Some (Response True (Some (Value [])))"]
  by (simp add: onmessage_def try_message_def useBotStream_def field_of_def)

section \<open>The bot-state endpoint\<close>

lemma literal_Cons:
  "literal ((k, v) # kvs) k' = (if k' = k then v else literal kvs k')"
  by (simp add: literal_def split: option.split)

lemma GET_Contents:
  "v \<noteq> JNull \<Longrightarrow>
   GET (Contents v) = \<lparr> status = 200,
      body = json_body (literal [(''connected'', Some (JBool True)),
                                 (''state'', Some (JObj (to_client v)))]) \<rparr>"
  by (cases v) (simp_all add: GET_def)

lemma state_prop_GET:
  "v \<noteq> JNull \<Longrightarrow> state_prop (GET (Contents v)) k = map_option to_json (to_client v k)"
  by (simp add: GET_Contents state_prop_def json_body_def literal_Cons)

lemma GET_Missing:
  "status (GET Missing) = 200"
  "body (GET Missing) ''connected'' = Some (JBool False)"
  "body (GET Missing) ''state'' = Some JNull"
  by (simp_all add: GET_def json_body_def literal_Cons)

lemma GET_failure:
  "f = Unreadable e \<or> f = Malformed e \<Longrightarrow>
     status (GET f) = 500 \<and> body (GET f) ''error'' = Some (JStr e)"
  by (auto simp: GET_def server_error_def json_body_def literal_Cons)

lemma GET_ok:
  "v \<noteq> JNull \<Longrightarrow> status (GET (Contents v)) = 200
        \<and> body (GET (Contents v)) ''connected'' = Some (JBool True)"
  by (simp add: GET_Contents json_body_def literal_Cons)

lemma to_client_defaults:
  "to_client v ''totalBuys'' = or_default (props v ''total_buys'') (JNum 0)"
  "to_client v ''totalSells'' = or_default (props v ''total_sells'') (JNum 0)"
  "to_client v ''totalBuyVolume'' = or_default (props v ''total_buy_volume'') (JNum 0)"
  "to_client v ''totalSellVolume'' = or_default (props v ''total_sell_volume'') (JNum 0)"
  "to_client v ''lastCreatorRewardsAvailable''
     = or_default (props v ''last_creator_rewards_available'') (JNum 0)"
  "to_client v ''creatorRewards'' = or_default (props v ''creator_rewards'') (JNum 0)"
  "to_client v ''totalAnalyses'' = or_default (props v ''total_analyses'') (JNum 0)"
  "to_client v ''totalAlerts'' = or_default (props v ''total_alerts'') (JNum 0)"
  "to_client v ''analysisMode'' = or_default (props v ''analysis_mode'') (JStr ''brief'')"
  by (simp_all add: to_client_def Let_def literal_Cons)

lemma to_client_copies:
  "to_client v ''tokenAddress'' = props v ''token_address''"
  "to_client v ''lastPrice'' = props v ''last_price''"
  "to_client v ''highestPrice'' = props v ''highest_price''"
  "to_client v ''lowestPrice'' = props v ''lowest_price''"
  "to_client v ''lastMarketCap'' = props v ''last_market_cap''"
  "to_client v ''lastHolderCount'' = props v ''last_holder_count''"
  "to_client v ''startTime'' = props v ''start_time''"
  by (simp_all add: to_client_def Let_def literal_Cons)

lemma to_client_defaulted:
  "(snake, camel) \<in> set defaulted \<Longrightarrow>
      to_client v camel = or_default (props v snake) (JNum 0)"
  unfolding defaulted_def
  by (auto simp only: set_simps insert_iff empty_iff prod.inject to_client_defaults)

lemma to_client_copied:
  "(snake, camel) \<in> set copied \<Longrightarrow> to_client v camel = props v snake"
  unfolding copied_def
  by (auto simp only: set_simps insert_iff empty_iff prod.inject to_client_copies)

text \<open>
  C9, as the code has it. With no file the handler answers 200 with
  \<^verbatim>\<open>connected: false\<close> and \<^verbatim>\<open>state: null\<close>. A read or parse failure gives 500 with the
  description of the error. A file whose parsed value is not \<^verbatim>\<open>null\<close> gives 200 with
  \<^verbatim>\<open>connected: true\<close> and a state in camelCase. Each field read with \<^verbatim>\<open>|| 0\<close> is 0 when
  the parsed value lacks it and the parsed value, serialised, when that is truthy. Every
  other field is the parsed value, serialised, so it stays absent when the file lacks it;
  \<^verbatim>\<open>analysisMode\<close> falls back to \<^verbatim>\<open>brief\<close>. Serialising keeps a finite number and a string
  and writes a non-finite number as \<^verbatim>\<open>null\<close>.
\<close>

theorem GET_bot_state:
  "status (GET Missing) = 200
   \<and> body (GET Missing) ''connected'' = Some (JBool False)
   \<and> body (GET Missing) ''state'' = Some JNull
   \<and> (f = Unreadable e \<or> f = Malformed e \<longrightarrow>
        status (GET f) = 500 \<and> body (GET f) ''error'' = Some (JStr e))
   \<and> (v \<noteq> JNull \<longrightarrow>
        status (GET (Contents v)) = 200
        \<and> body (GET (Contents v)) ''connected'' = Some (JBool True)
        \<and> ((snake, camel) \<in> set defaulted \<longrightarrow>
             (props v snake = None \<longrightarrow> state_prop (GET (Contents v)) camel = Some (JNum 0))
             \<and> (truthy (props v snake) \<longrightarrow>
                  state_prop (GET (Contents v)) camel = map_option to_json (props v snake)))
        \<and> ((snake', camel') \<in> set copied \<longrightarrow>
             state_prop (GET (Contents v)) camel' = map_option to_json (props v snake'))
        \<and> state_prop (GET (Contents v)) ''analysisMode''
            = map_option to_json (or_default (props v ''analysis_mode'') (JStr ''brief'')))
   \<and> to_json (JNum r) = JNum r \<and> to_json (JStr t) = JStr t \<and> to_json (JInf pos) = JNull"
proof -
  have dflt: "state_prop (GET (Contents v)) camel = Some (JNum 0)"
    if "v \<noteq> JNull" "(snake, camel) \<in> set defaulted" "props v snake = None"
    using that by (simp add: state_prop_GET to_client_defaulted or_default_def)
  have kept: "state_prop (GET (Contents v)) camel = map_option to_json (props v snake)"
    if "v \<noteq> JNull" "(snake, camel) \<in> set defaulted" "truthy (props v snake)"
    using that by (simp add: state_prop_GET to_client_defaulted or_default_def)
  have cp: "state_prop (GET (Contents v)) camel' = map_option to_json (props v snake')"
    if "v \<noteq> JNull" "(snake', camel') \<in> set copied"
    using that by (simp add: state_prop_GET to_client_copied)
  have mode: "state_prop (GET (Contents v)) ''analysisMode''
            = map_option to_json (or_default (props v ''analysis_mode'') (JStr ''brief''))"
    if "v \<noteq> JNull"
    using that by (simp add: state_prop_GET to_client_defaults)
  have ser: "to_json (JNum r) = JNum r" "to_json (JStr t) = JStr t"
    "to_json (JInf pos) = JNull"
    by simp_all
  show ?thesis
    using GET_Missing GET_failure [of f e] GET_ok [of v] dflt kept cp mode ser by blast
qed

theorem GET_bot_state_witness:
  "status (GET (Malformed ''SyntaxError: Unexpected end of JSON input'')) = 500
   \<and> body (GET (Malformed ''SyntaxError: Unexpected end of JSON input'')) ''error''
       = Some (JStr ''SyntaxError: Unexpected end of JSON input'')
   \<and> JObj [''last_price'' \<mapsto> JNum 2, ''total_sells'' \<mapsto> JNum 4,
            ''highest_price'' \<mapsto> JInf True] \<noteq> JNull
   \<and> (''total_buys'', ''totalBuys'') \<in> set defaulted
   \<and> props (JObj [''last_price'' \<mapsto> JNum 2, ''total_sells'' \<mapsto> JNum 4,
                   ''highest_price'' \<mapsto> JInf True]) ''total_buys'' = None
   \<and> state_prop (GET (Contents (JObj [''last_price'' \<mapsto> JNum 2, ''total_sells'' \<mapsto> JNum 4,
                   ''highest_price'' \<mapsto> JInf True]))) ''totalBuys'' = Some (JNum 0)
   \<and> (''total_sells'', ''totalSells'') \<in> set defaulted
   \<and> truthy (props (JObj [''last_price'' \<mapsto> JNum 2, ''total_sells'' \<mapsto> JNum 4,
                   ''highest_price'' \<mapsto> JInf True]) ''total_sells'')
   \<and> state_prop (GET (Contents (JObj [''last_price'' \<mapsto> JNum 2, ''total_sells'' \<mapsto> JNum 4,
                   ''highest_price'' \<mapsto> JInf True]))) ''totalSells'' = Some (JNum 4)
   \<and> (''last_price'', ''lastPrice'') \<in> set copied
   \<and> state_prop (GET (Contents (JObj [''last_price'' \<mapsto> JNum 2, ''total_sells'' \<mapsto> JNum 4,
                   ''highest_price'' \<mapsto> JInf True]))) ''lastPrice'' = Some (JNum 2)
   \<and> (''highest_price'', ''highestPrice'') \<in> set copied
   \<and> state_prop (GET (Contents (JObj [''last_price'' \<mapsto> JNum 2, ''total_sells'' \<mapsto> JNum 4,
                   ''highest_price'' \<mapsto> JInf True]))) ''highestPrice'' = Some JNull
   \<and> state_prop (GET (Contents (JObj [''last_price'' \<mapsto> JNum 2, ''total_sells'' \<mapsto> JNum 4,
                   ''highest_price'' \<mapsto> JInf True]))) ''analysisMode'' = Some (JStr ''brief'')"
proof -
  let ?e = "''SyntaxError: Unexpected end of JSON input''"
  let ?v = "JObj [''last_price'' \<mapsto> JNum 2, ''total_sells'' \<mapsto> JNum 4,
                  ''highest_price'' \<mapsto> JInf True]"
  from GET_bot_state [of "Malformed ?e" ?e ?v "''total_buys''" "''totalBuys''"
          "''last_price''" "''lastPrice''"]
       GET_bot_state [of "Malformed ?e" ?e ?v "''total_sells''" "''totalSells''"
          "''highest_price''" "''highestPrice''"]
  show ?thesis by (simp add: defaulted_def copied_def or_default_def)
qed

text \<open>
  The claim as first stated fails on the file \<^verbatim>\<open>{}\<close>: it parses, \<^verbatim>\<open>totalBuys\<close> is 0 in
  the response, but the numeric field \<^verbatim>\<open>lastPrice\<close> is absent, not 0. It also fails on
  the file \<^verbatim>\<open>null\<close>, which parses and still gives 500.
\<close>

theorem GET_nullable_counterexample:
  "status (GET (Contents (JObj Map.empty))) = 200
   \<and> state_prop (GET (Contents (JObj Map.empty))) ''totalBuys'' = Some (JNum 0)
   \<and> state_prop (GET (Contents (JObj Map.empty))) ''lastPrice'' \<noteq> Some (JNum 0)
   \<and> status (GET (Contents JNull)) = 500"
proof -
  have "status (GET (Contents (JObj Map.empty))) = 200"
    by (simp add: GET_Contents)
  moreover have "state_prop (GET (Contents (JObj Map.empty))) ''totalBuys'' = Some (JNum 0)"
    by (simp add: state_prop_GET to_client_defaults or_default_def)
  moreover have "state_prop (GET (Contents (JObj Map.empty))) ''lastPrice'' \<noteq> Some (JNum 0)"
    by (simp add: state_prop_GET to_client_copies)
  moreover have "status (GET (Contents JNull)) = 500"
    by (simp add: GET_def server_error_def)
  ultimately show ?thesis by simp
qed

end
